theory Spec2Isabelle
  imports Complex_Main "HOL-Library.Sublist"
begin

section \<open>Strings as the scripts use them\<close>

text \<open>
  Policy Peek is a browser extension of two scripts: the background script, whose
  injected function \<open>detectPolicyContent\<close> scans a page, and the popup script, whose
  functions \<open>analyzePolicyText\<close> and \<open>analyzeRiskFactors\<close> analyse pasted text.
  Both work on JavaScript strings. A string is modelled as a \<^typ>\<open>string\<close> whose
  characters are the code units \<open>0\<close> to \<open>255\<close> (Latin-1), so \<open>length\<close> is the
  script's \<open>.length\<close>. Code units above \<open>255\<close> are outside the model, but for
  the two that the page scanner itself writes into the page (see there).
\<close>

text \<open>
  The characters matched by \<open>\s\<close> in a regular expression and removed by
  \<open>trim()\<close>: tab, line feed, vertical tab, form feed, carriage return, space and
  the no-break space.
\<close>

definition is_space :: "char \<Rightarrow> bool" where
  "is_space c =
     (c \<in> set [CHR 0x09, CHR 0x0A, CHR 0x0B, CHR 0x0C, CHR 0x0D, CHR 0x20, CHR 0xA0])"

text \<open>The characters matched by \<open>\w\<close>: ASCII letters, digits and the underscore.\<close>

definition is_word :: "char \<Rightarrow> bool" where
  "is_word c =
     (let n = (of_char c :: nat)
      in (48 \<le> n \<and> n \<le> 57) \<or> (65 \<le> n \<and> n \<le> 90) \<or> n = 95 \<or> (97 \<le> n \<and> n \<le> 122))"

text \<open>
  \<open>toLowerCase()\<close>: the letters \<open>A\<close> to \<open>Z\<close> and the Latin-1 capitals
  \<open>0xC0\<close> to \<open>0xDE\<close> (the multiplication sign \<open>0xD7\<close> apart) move up by
  \<open>0x20\<close>, which sets bit 5 of the code unit; every other character stays.
\<close>

definition is_upper :: "char \<Rightarrow> bool" where
  "is_upper c =
     (let n = (of_char c :: nat)
      in (65 \<le> n \<and> n \<le> 90) \<or> (192 \<le> n \<and> n \<le> 222 \<and> n \<noteq> 215))"

definition toLowerChar :: "char \<Rightarrow> char" where
  "toLowerChar c =
     (if is_upper c
      then (case c of Char b0 b1 b2 b3 b4 b5 b6 b7 \<Rightarrow> Char b0 b1 b2 b3 b4 True b6 b7)
      else c)"

definition toLowerCase :: "string \<Rightarrow> string" where
  "toLowerCase s = map toLowerChar s"

text \<open>\<open>s.startsWith(p)\<close>, \<open>s.endsWith(p)\<close> and \<open>s.includes(p)\<close>.\<close>

fun startsWith :: "'a list \<Rightarrow> 'a list \<Rightarrow> bool" where
  "startsWith s [] = True"
| "startsWith [] (p # ps) = False"
| "startsWith (c # cs) (p # ps) = (c = p \<and> startsWith cs ps)"

definition endsWith :: "'a list \<Rightarrow> 'a list \<Rightarrow> bool" where
  "endsWith s p = startsWith (rev s) (rev p)"

fun includes_str :: "'a list \<Rightarrow> 'a list \<Rightarrow> bool" where
  "includes_str [] p = (p = [])"
| "includes_str (c # cs) p = (startsWith (c # cs) p \<or> includes_str cs p)"

text \<open>\<open>s.trim()\<close> removes the white space at both ends.\<close>

definition trim :: "string \<Rightarrow> string" where
  "trim s = rev (dropWhile is_space (rev (dropWhile is_space s)))"

text \<open>
  \<open>s.split(/\s+/)\<close>: the pieces between the maximal runs of white space. The empty
  string gives one empty piece, and white space at either end gives an empty piece
  there, so the number of pieces is the number of runs plus one.
\<close>

function splitWs :: "string \<Rightarrow> string list" where
  "splitWs [] = [[]]"
| "splitWs (c # cs) =
     (if is_space c then [] # splitWs (dropWhile is_space cs)
      else (case splitWs cs of t # ts \<Rightarrow> (c # t) # ts | [] \<Rightarrow> [[c]]))"
  by pat_completeness auto
termination
  by (relation "measure length") (auto simp: le_imp_less_Suc length_dropWhile_le)

text \<open>
  \<open>s.replace(/\s+/g, r)\<close>: every maximal run of white space becomes \<open>r\<close>.
\<close>

function replaceWs :: "string \<Rightarrow> string \<Rightarrow> string" where
  "replaceWs r [] = []"
| "replaceWs r (c # cs) =
     (if is_space c then r @ replaceWs r (dropWhile is_space cs)
      else c # replaceWs r cs)"
  by pat_completeness auto
termination
  by (relation "measure (\<lambda>(r, s). length s)") (auto simp: le_imp_less_Suc length_dropWhile_le)

text \<open>
  A non-negative integer inside a template literal is printed in decimal, without
  leading zeros.
\<close>

fun string_of_nat :: "nat \<Rightarrow> string" where
  "string_of_nat n =
     (if n < 10 then [''0123456789'' ! n]
      else string_of_nat (n div 10) @ [''0123456789'' ! (n mod 10)])"

declare string_of_nat.simps [simp del]

section \<open>The risk scorer of the popup: \<open>analyzeRiskFactors\<close>\<close>

definition riskKeywords :: "string list" where
  "riskKeywords =
     [''sell your data'', ''third parties'', ''advertising partners'', ''marketing purposes'',
      ''indefinitely'', ''permanent'', ''irrevocable'', ''without notice'', ''at our discretion'',
      ''no liability'', ''as is'', ''no warranty'', ''indemnify'', ''hold harmless'']"

definition positiveKeywords :: "string list" where
  "positiveKeywords =
     [''not sell'', ''not share'', ''encrypted'', ''secure'', ''privacy protection'',
      ''opt-out'', ''delete your data'', ''user control'', ''transparent'']"

datatype level = Safe | Risky

record risk_analysis =
  level :: level
  description :: string
  riskScore :: rat
  foundRisks :: "string list"
  foundPositives :: "string list"

text \<open>
  The score is a JavaScript number that starts at \<open>0\<close> and changes by \<open>1\<close> and by
  \<open>0.5\<close> at most \<open>14 + 9\<close> times: every value is a small multiple of one half,
  which a double holds exactly, so the rationals compute what the script computes.

  The test of both \<open>forEach\<close> callbacks:
  \<open>text.toLowerCase().includes(keyword.toLowerCase())\<close>.
\<close>

definition mentions :: "string \<Rightarrow> string \<Rightarrow> bool" where
  "mentions text keyword = includes_str (toLowerCase text) (toLowerCase keyword)"

text \<open>
  The state of the two loops is the triple of \<open>riskScore\<close>, \<open>foundRisks\<close> and
  \<open>foundPositives\<close>; each callback is one step on it.
\<close>

type_synonym score_state = "rat \<times> string list \<times> string list"

definition risk_step :: "string \<Rightarrow> score_state \<Rightarrow> string \<Rightarrow> score_state" where
  "risk_step text st keyword =
     (case st of (score, risks, positives) \<Rightarrow>
        if mentions text keyword then (score + 1, risks @ [keyword], positives) else st)"

definition positive_step :: "string \<Rightarrow> score_state \<Rightarrow> string \<Rightarrow> score_state" where
  "positive_step text st keyword =
     (case st of (score, risks, positives) \<Rightarrow>
        if mentions text keyword then (score - 1 / 2, risks, positives @ [keyword]) else st)"

definition analyzeRiskFactors :: "string \<Rightarrow> risk_analysis" where
  "analyzeRiskFactors text =
     (case foldl (positive_step text) (foldl (risk_step text) (0, [], []) riskKeywords)
             positiveKeywords of
        (score, risks, positives) \<Rightarrow>
          if score \<ge> 3 then
            \<lparr>level = Risky,
             description = ''Multiple risk factors detected. Review carefully before accepting.'',
             riskScore = score, foundRisks = risks, foundPositives = positives\<rparr>
          else if score \<ge> 1 then
            \<lparr>level = Risky,
             description = ''Some concerning terms found. Consider the implications.'',
             riskScore = score, foundRisks = risks, foundPositives = positives\<rparr>
          else
            \<lparr>level = Safe,
             description = ''No major red flags detected. Appears to be standard terms.'',
             riskScore = score, foundRisks = risks, foundPositives = positives\<rparr>)"

section \<open>The summary pipeline of the popup: \<open>analyzePolicyText\<close>\<close>

text \<open>
  The three optional text providers live under \<open>window.ai\<close>, which may itself be
  missing. Each use of a provider is \<open>create(options)\<close> followed by one call on the
  created object, both awaited inside one \<open>try\<close> block: the provider is modelled as
  the function from the text it is given to what the pair of calls yields, an exception
  (\<open>Inl\<close>) or the returned string (\<open>Inr\<close>).
\<close>

datatype exn = Exn string

type_synonym provider = "string \<Rightarrow> exn + string"

record ai =
  summarizer :: "provider option"
  writer :: "provider option"
  rewriter :: "provider option"

text \<open>The guard \<open>window.ai && window.ai.x\<close>.\<close>

definition available :: "ai option \<Rightarrow> (ai \<Rightarrow> provider option) \<Rightarrow> provider option" where
  "available window_ai x = (case window_ai of None \<Rightarrow> None | Some a \<Rightarrow> x a)"

text \<open>
  Every provider the pipeline enters is logged with the text handed to it, so that
  theorems can say which providers were tried and on what.
\<close>

datatype role = Summarizer | Writer | Rewriter

type_synonym attempts = "(role \<times> string) list"

text \<open>
  First block: \<open>summaryText\<close> after the summarizer. An exception leaves the
  initial empty string.
\<close>

definition summarizer_stage :: "ai option \<Rightarrow> string \<Rightarrow> string \<times> attempts" where
  "summarizer_stage window_ai text =
     (case available window_ai summarizer of
        None \<Rightarrow> ([], [])
      | Some p \<Rightarrow>
          (case p text of
             Inl e \<Rightarrow> ([], [(Summarizer, text)])
           | Inr s \<Rightarrow> (s, [(Summarizer, text)])))"

text \<open>
  Second block: \<open>enhancedSummary\<close> after the writer, entered only when
  \<open>summaryText\<close> is truthy (not empty). The \<open>catch\<close> assigns \<open>summaryText\<close>.
\<close>

definition writer_prompt :: "string \<Rightarrow> string" where
  "writer_prompt summaryText =
     ''Rewrite this privacy policy summary to highlight key risks and benefits in simple terms: ''
       @ summaryText"

definition writer_stage :: "ai option \<Rightarrow> string \<Rightarrow> string \<times> attempts" where
  "writer_stage window_ai summaryText =
     (case available window_ai writer of
        None \<Rightarrow> ([], [])
      | Some p \<Rightarrow>
          if summaryText = [] then ([], [])
          else
            (case p (writer_prompt summaryText) of
               Inl e \<Rightarrow> (summaryText, [(Writer, writer_prompt summaryText)])
             | Inr s \<Rightarrow> (s, [(Writer, writer_prompt summaryText)])))"

text \<open>
  Third block: \<open>enhancedSummary\<close> after the rewriter, entered only when
  \<open>enhancedSummary\<close> is truthy. The \<open>catch\<close> keeps the value.
\<close>

definition rewriter_stage :: "ai option \<Rightarrow> string \<Rightarrow> string \<times> attempts" where
  "rewriter_stage window_ai enhancedSummary =
     (case available window_ai rewriter of
        None \<Rightarrow> (enhancedSummary, [])
      | Some p \<Rightarrow>
          if enhancedSummary = [] then (enhancedSummary, [])
          else
            (case p enhancedSummary of
               Inl e \<Rightarrow> (enhancedSummary, [(Rewriter, enhancedSummary)])
             | Inr s \<Rightarrow> (s, [(Rewriter, enhancedSummary)])))"

text \<open>
  What \<open>analyzePolicyText\<close> hands to \<open>displayAnalysisResults\<close> and
  \<open>updateRiskIndicator\<close>: the final summary and the risk analysis. The outer
  \<open>catch\<close> of the function is reached only when rendering into the popup's
  document throws, which is outside this model: every provider call has its own
  \<open>try\<close>, and \<open>analyzeRiskFactors\<close> is total.
\<close>

record analysis_output =
  finalSummary :: string
  riskAnalysis :: risk_analysis
  tried :: attempts

definition analyzePolicyText :: "ai option \<Rightarrow> string \<Rightarrow> analysis_output" where
  "analyzePolicyText window_ai text =
     (case summarizer_stage window_ai text of (summaryText, a1) \<Rightarrow>
      case writer_stage window_ai summaryText of (written, a2) \<Rightarrow>
      case rewriter_stage window_ai written of (enhancedSummary, a3) \<Rightarrow>
        \<lparr>finalSummary =
           (if enhancedSummary \<noteq> [] then enhancedSummary
            else if summaryText \<noteq> [] then summaryText
            else ''Policy contains '' @ string_of_nat (length (splitWs text))
                   @ '' words. Analysis based on risk keyword detection.''),
         riskAnalysis = analyzeRiskFactors text,
         tried = a1 @ a2 @ a3\<rparr>)"

text \<open>
  The handler of that \<open>catch\<close>, \<open>performFallbackAnalysis\<close>, builds its summary
  from the heuristics alone. It prints the score inside a template literal: the score
  is a multiple of one half, which JavaScript prints as the integer part followed by
  \<open>.5\<close> when there is a half, with a minus sign when negative.
\<close>

definition string_of_score :: "rat \<Rightarrow> string" where
  "string_of_score q =
     (let halves = nat \<lfloor>2 * \<bar>q\<bar>\<rfloor>
      in (if q < 0 then ''-'' else [])
           @ string_of_nat (halves div 2)
           @ (if halves mod 2 = 0 then [] else ''.5''))"

record fallback_analysis = risk_analysis +
  summary :: string

definition performFallbackAnalysis :: "string \<Rightarrow> fallback_analysis" where
  "performFallbackAnalysis text =
     (let wordCount = length (splitWs text);
          riskAnalysis = analyzeRiskFactors text;
          s0 = ''Analysis of '' @ string_of_nat wordCount
                 @ '' words completed using keyword detection. '';
          s1 = (if length (foundRisks riskAnalysis) > 0
                then s0 @ ''Found '' @ string_of_nat (length (foundRisks riskAnalysis))
                       @ '' potential risk factor(s). ''
                else s0);
          s2 = (if length (foundPositives riskAnalysis) > 0
                then s1 @ ''Also identified ''
                       @ string_of_nat (length (foundPositives riskAnalysis))
                       @ '' positive privacy aspect(s). ''
                else s1);
          s3 = (if riskScore riskAnalysis \<ge> 3
                then s2 @ ''High risk score ('' @ string_of_score (riskScore riskAnalysis)
                       @ '') suggests careful review recommended.''
                else if riskScore riskAnalysis \<ge> 1
                then s2 @ ''Moderate risk score ('' @ string_of_score (riskScore riskAnalysis)
                       @ '') - some concerns identified.''
                else s2 @ ''Low risk score ('' @ string_of_score (riskScore riskAnalysis)
                       @ '') - appears to be standard terms.'')
      in \<lparr>level = level riskAnalysis,
          description = description riskAnalysis,
          riskScore = riskScore riskAnalysis,
          foundRisks = foundRisks riskAnalysis,
          foundPositives = foundPositives riskAnalysis,
          summary = s3\<rparr>)"

text \<open>
  The click handler of the Analyze button. Its two early returns after \<open>alert\<close> are
  the validation failures; the alert's message is the error's payload.
\<close>

datatype error = ValidationError string

definition analyzeButton_click :: "ai option \<Rightarrow> string \<Rightarrow> error + analysis_output" where
  "analyzeButton_click window_ai policyText_value =
     (let text = trim policyText_value
      in if text = [] then
           Inl (ValidationError ''Please paste some policy text to analyze'')
         else if length text < 100 then
           Inl (ValidationError
             ''Please provide more text for a meaningful analysis (at least 100 characters)'')
         else Inr (analyzePolicyText window_ai text))"

section \<open>The page scanner of the background script: \<open>detectPolicyContent\<close>\<close>

definition policyKeywords :: "string list" where
  "policyKeywords =
     [''privacy policy'', ''terms of service'', ''terms and conditions'',
      ''cookie policy'', ''cookies policy'', ''data protection'', ''user agreement'',
      ''privacy notice'', ''terms of use'', ''legal notice'', ''gdpr'', ''ccpa'',
      ''cookie notice'', ''cookie consent'', ''privacy statement'', ''legal terms'',
      ''acceptable use'', ''end user license'', ''eula'', ''terms & conditions'', ''terms'',
      ''data policy'', ''cookie user'', ''cookie settings'', ''privacy settings'',
      ''manage cookies'', ''cookie preferences'', ''privacy center'', ''legal'',
      ''privacy rights'', ''data use policy'', ''cookie information'', ''cookie details'',
      ''privacy information'', ''cookie banner'', ''terms of use policy'']"

definition riskyKeywords :: "string list" where
  "riskyKeywords =
     [''sell your data'', ''third parties'', ''advertising partners'',
      ''indefinitely'', ''without notice'', ''at our discretion'',
      ''no liability'', ''as is'', ''no warranty'']"

subsection \<open>The text of the document\<close>

text \<open>
  While it scans, the script writes into the page: next to a link that it records it
  appends a \<open>span\<close> whose text is the warning sign, the two code units \<open>U+26A0\<close>
  and \<open>U+FE0F\<close>. The text of the document is therefore made of the Latin-1 code
  units and of these two. Neither of the two is white space or a word character, and
  \<open>toLowerCase()\<close> leaves both as they are.
\<close>

datatype code_unit = Latin char | WarningSign | VariationSelector16

definition latin :: "string \<Rightarrow> code_unit list" where
  "latin s = map Latin s"

fun unit_is_space :: "code_unit \<Rightarrow> bool" where
  "unit_is_space (Latin c) = is_space c"
| "unit_is_space WarningSign = False"
| "unit_is_space VariationSelector16 = False"

fun unit_is_word :: "code_unit \<Rightarrow> bool" where
  "unit_is_word (Latin c) = is_word c"
| "unit_is_word WarningSign = False"
| "unit_is_word VariationSelector16 = False"

fun unit_toLower :: "code_unit \<Rightarrow> code_unit" where
  "unit_toLower (Latin c) = Latin (toLowerChar c)"
| "unit_toLower WarningSign = WarningSign"
| "unit_toLower VariationSelector16 = VariationSelector16"

text \<open>\<open>toLowerCase()\<close>, \<open>trim()\<close> and \<open>replace(/[^\w\s]/g, '')\<close> on such text.\<close>

definition toLowerText :: "code_unit list \<Rightarrow> code_unit list" where
  "toLowerText s = map unit_toLower s"

definition trimText :: "code_unit list \<Rightarrow> code_unit list" where
  "trimText s = rev (dropWhile unit_is_space (rev (dropWhile unit_is_space s)))"

definition stripPunctText :: "code_unit list \<Rightarrow> code_unit list" where
  "stripPunctText s = filter (\<lambda>u. unit_is_word u \<or> unit_is_space u) s"

subsection \<open>The document tree\<close>

text \<open>
  What the script reads of an element: whether it matches \<open>a[href]\<close>, and then its
  resolved \<open>href\<close> property (\<open>el_href\<close>); its \<open>aria-label\<close> and \<open>title\<close>
  attributes, for which \<open>getAttribute\<close> gives \<open>null\<close> (\<open>None\<close>) when they are
  missing; and whether it carries the class \<open>policy-peek-indicator\<close>. A node is a
  text node or an element with its children.
\<close>

record element =
  el_href :: "string option"
  el_aria_label :: "string option"
  el_title :: "string option"
  el_indicator :: bool

datatype node = Text "code_unit list" | Element element "node list"

text \<open>\<open>node.textContent\<close>: the texts below the node, in document order.\<close>

fun textContent :: "node \<Rightarrow> code_unit list" where
  "textContent (Text s) = s"
| "textContent (Element e cs) = concat (map textContent cs)"

text \<open>
  \<open>element.querySelector('.policy-peek-indicator')\<close> finds an element with that class
  among the descendants of \<open>element\<close>; it is stated on the children of \<open>element\<close>.
\<close>

fun carries_indicator :: "node \<Rightarrow> bool" where
  "carries_indicator (Text s) = False"
| "carries_indicator (Element e cs) = (el_indicator e \<or> list_ex carries_indicator cs)"

definition querySelector_indicator :: "node list \<Rightarrow> bool" where
  "querySelector_indicator children = list_ex carries_indicator children"

text \<open>
  The document is the list of the children of its root element. An element below the
  root is named by its path, the positions of its ancestors and of itself among their
  siblings; the empty path names the root. \<open>document.querySelectorAll('a[href]')\<close>
  is the static list of the anchors in document order: an element comes before its
  descendants, and these before its later siblings. \<open>anchors_from p k ns\<close> lists the
  anchors of the nodes \<open>ns\<close>, which stand at the positions \<open>k\<close>, \<open>k + 1\<close>, ...
  below the element of path \<open>p\<close>.
\<close>

fun anchors_from :: "nat list \<Rightarrow> nat \<Rightarrow> node list \<Rightarrow> (nat list \<times> element) list" where
  "anchors_from p k [] = []"
| "anchors_from p k (Text s # ns) = anchors_from p (Suc k) ns"
| "anchors_from p k (Element e cs # ns) =
     (if el_href e \<noteq> None then [(p @ [k], e)] else [])
       @ anchors_from (p @ [k]) 0 cs @ anchors_from p (Suc k) ns"

text \<open>The children of the element at a path (none when the path leads nowhere).\<close>

fun children_at :: "node list \<Rightarrow> nat list \<Rightarrow> node list" where
  "children_at f [] = f"
| "children_at [] (k # p) = []"
| "children_at (Text s # ns) (0 # p) = []"
| "children_at (Element e cs # ns) (0 # p) = children_at cs p"
| "children_at (n # ns) (Suc k # p) = children_at ns (k # p)"

definition textContent_at :: "node list \<Rightarrow> nat list \<Rightarrow> code_unit list" where
  "textContent_at doc path = concat (map textContent (children_at doc path))"

text \<open>\<open>element.appendChild(c)\<close> for the element at a path: \<open>c\<close> becomes its last child.\<close>

fun appendChild :: "node list \<Rightarrow> nat list \<Rightarrow> node \<Rightarrow> node list" where
  "appendChild f [] c = f @ [c]"
| "appendChild [] (k # p) c = []"
| "appendChild (Text s # ns) (0 # p) c = Text s # ns"
| "appendChild (Element e cs # ns) (0 # p) c = Element e (appendChild cs p c) # ns"
| "appendChild (n # ns) (Suc k # p) c = n # appendChild ns (k # p) c"

subsection \<open>The indicator\<close>

text \<open>
  \<open>addPolicyLinkIndicator\<close> returns at once when the link or its parent element
  already has an indicator below it; otherwise it appends the indicator to the link,
  inside it. (Its second argument, the keyword, is used only by the indicator's click
  handler.) The parent of the element at \<open>path\<close> is at \<open>butlast path\<close>.
\<close>

definition indicator :: node where
  "indicator =
     Element \<lparr>el_href = None, el_aria_label = None, el_title = None, el_indicator = True\<rparr>
       [Text [WarningSign, VariationSelector16]]"

definition addPolicyLinkIndicator :: "node list \<Rightarrow> nat list \<Rightarrow> node list" where
  "addPolicyLinkIndicator doc path =
     (if querySelector_indicator (children_at doc path) \<or>
         querySelector_indicator (children_at doc (butlast path))
      then doc
      else appendChild doc path indicator)"

subsection \<open>The test of a link against a keyword\<close>

text \<open>
  At the start of its turn the script reads four constants of a link: \<open>linkText\<close>,
  the text in lower case and trimmed; \<open>href\<close>, \<open>ariaLabel\<close> and \<open>title\<close> in
  lower case, a missing attribute read as the empty string (\<open>a || ''\<close>).
\<close>

definition or_empty :: "string option \<Rightarrow> string" where
  "or_empty a = (case a of None \<Rightarrow> [] | Some s \<Rightarrow> s)"

text \<open>\<open>link.href\<close> of an element of the list of anchors.\<close>

definition link_href_of :: "element \<Rightarrow> string" where
  "link_href_of e = (case el_href e of None \<Rightarrow> [] | Some h \<Rightarrow> h)"

record captured =
  linkText :: "code_unit list"
  href :: string
  ariaLabel :: string
  title :: string

definition capture :: "code_unit list \<Rightarrow> element \<Rightarrow> captured" where
  "capture text e =
     \<lparr>linkText = trimText (toLowerText text),
      href = toLowerCase (link_href_of e),
      ariaLabel = toLowerCase (or_empty (el_aria_label e)),
      title = toLowerCase (or_empty (el_title e))\<rparr>"

text \<open>The nine-way test \<open>isMatch\<close> on these constants.\<close>

definition isMatch :: "captured \<Rightarrow> string \<Rightarrow> bool" where
  "isMatch c keyword =
     (let keywordLower = toLowerCase keyword
      in includes_str (linkText c) (latin keywordLower) \<or>
         includes_str (href c) (replaceWs [] keywordLower) \<or>
         includes_str (href c) (replaceWs ''-'' keywordLower) \<or>
         includes_str (href c) (replaceWs ''_'' keywordLower) \<or>
         includes_str (ariaLabel c) keywordLower \<or>
         includes_str (title c) keywordLower \<or>
         includes_str (stripPunctText (linkText c)) (latin keywordLower) \<or>
         startsWith (linkText c) (latin keywordLower) \<or>
         endsWith (linkText c) (latin keywordLower))"

subsection \<open>The scan of the links\<close>

text \<open>The object \<open>{text, href}\<close> pushed on \<open>foundPolicyLinks\<close>.\<close>

record policy_link =
  link_text :: "code_unit list"
  link_href :: string

text \<open>
  The state of the scan is the document and \<open>foundPolicyLinks\<close>. The block under
  \<open>if (isMatch)\<close> reads \<open>link.textContent.trim()\<close> from the document as it is
  then, for the duplicate test and for the entry, pushes the entry and adds the
  indicator.
\<close>

type_synonym scan_state = "node list \<times> policy_link list"

definition record_match :: "nat list \<Rightarrow> element \<Rightarrow> scan_state \<Rightarrow> scan_state" where
  "record_match path e st =
     (case st of (doc, found) \<Rightarrow>
        (let alreadyExists =
               list_ex (\<lambda>existing. link_href existing = link_href_of e \<and>
                          link_text existing = trimText (textContent_at doc path)) found
         in if \<not> alreadyExists
            then (addPolicyLinkIndicator doc path,
                  found @ [\<lparr>link_text = trimText (textContent_at doc path),
                             link_href = link_href_of e\<rparr>])
            else st))"

text \<open>The body of the inner \<open>forEach\<close>, for the link at \<open>path\<close> with constants \<open>c\<close>.\<close>

definition keyword_step ::
  "nat list \<Rightarrow> element \<Rightarrow> captured \<Rightarrow> scan_state \<Rightarrow> string \<Rightarrow> scan_state" where
  "keyword_step path e c st keyword =
     (if isMatch c keyword then record_match path e st else st)"

text \<open>
  The body of the outer \<open>forEach\<close>: the constants are read from the document as the
  earlier links left it, then the keywords are tried in order.
\<close>

definition link_step :: "scan_state \<Rightarrow> nat list \<times> element \<Rightarrow> scan_state" where
  "link_step st a =
     (case a of (path, e) \<Rightarrow>
        foldl (keyword_step path e (capture (textContent_at (fst st) path) e)) st policyKeywords)"

text \<open>The whole scan: the document it leaves and \<open>foundPolicyLinks\<close>.\<close>

definition scan_links :: "node list \<Rightarrow> scan_state" where
  "scan_links doc = foldl link_step (doc, []) (anchors_from [] 0 doc)"

subsection \<open>The report\<close>

text \<open>
  What the injected function reads of the page: \<open>document.body.innerText\<close>, which
  depends on how the page is rendered and is given on its own, the document, and the
  location.
\<close>

record page =
  body_innerText :: string
  document_nodes :: "node list"
  location_hostname :: string
  location_href :: string

record policy_data =
  hasPolicyContent :: bool
  hasRiskyKeywords :: bool
  foundPolicyLinks :: "policy_link list"
  foundRiskyTerms :: "string list"
  hostname :: string
  url :: string

text \<open>The first loop over \<open>policyKeywords\<close> sets \<open>hasPolicyContent\<close>.\<close>

definition policy_text_step :: "string \<Rightarrow> bool \<Rightarrow> string \<Rightarrow> bool" where
  "policy_text_step pageText has keyword =
     (if includes_str pageText (toLowerCase keyword) then True else has)"

text \<open>
  The loop over \<open>riskyKeywords\<close> sets \<open>hasRiskyKeywords\<close> and pushes the keyword
  on \<open>foundRiskyTerms\<close>.
\<close>

definition risky_text_step :: "string \<Rightarrow> bool \<times> string list \<Rightarrow> string \<Rightarrow> bool \<times> string list" where
  "risky_text_step pageText st keyword =
     (if includes_str pageText (toLowerCase keyword) then (True, snd st @ [keyword]) else st)"

definition detectPolicyContent :: "page \<Rightarrow> policy_data" where
  "detectPolicyContent p =
     (let pageText = toLowerCase (body_innerText p);
          has_policy = foldl (policy_text_step pageText) False policyKeywords;
          risky = foldl (risky_text_step pageText) (False, []) riskyKeywords;
          found_links = snd (scan_links (document_nodes p))
      in \<lparr>hasPolicyContent = has_policy,
          hasRiskyKeywords = fst risky,
          foundPolicyLinks = take 5 found_links,
          foundRiskyTerms = take 5 (snd risky),
          hostname = location_hostname p,
          url = location_href p\<rparr>)"

section \<open>The specification's wording of the link test\<close>








section \<open>Notions used to state the properties\<close>



text \<open>The test \<^const>\<open>isMatch\<close> for a keyword that is in lower case already.\<close>

definition matches_lowered :: "captured \<Rightarrow> string \<Rightarrow> bool" where
  "matches_lowered c k =
     (includes_str (linkText c) (latin k) \<or>
      includes_str (href c) (replaceWs [] k) \<or>
      includes_str (href c) (replaceWs ''-'' k) \<or>
      includes_str (href c) (replaceWs ''_'' k) \<or>
      includes_str (ariaLabel c) k \<or>
      includes_str (title c) k \<or>
      includes_str (stripPunctText (linkText c)) (latin k) \<or>
      startsWith (linkText c) (latin k) \<or>
      endsWith (linkText c) (latin k))"

text \<open>
  A provider that is missing, or whose use throws whatever text it is given; and the
  situation where that is so for all three.
\<close>

definition absent_or_throws :: "provider option \<Rightarrow> bool" where
  "absent_or_throws p = (case p of None \<Rightarrow> True | Some f \<Rightarrow> \<forall>x. isl (f x))"

definition no_provider_works :: "ai option \<Rightarrow> bool" where
  "no_provider_works window_ai =
     (absent_or_throws (available window_ai summarizer) \<and>
      absent_or_throws (available window_ai writer) \<and>
      absent_or_throws (available window_ai rewriter))"

text \<open>
  Elements for concrete runs: an anchor element with only its \<open>href\<close>, the anchor
  with a text inside, the same after the indicator was put inside, and an element that
  only groups its children.
\<close>

definition link_to :: "string \<Rightarrow> element" where
  "link_to h = \<lparr>el_href = Some h, el_aria_label = None, el_title = None, el_indicator = False\<rparr>"

definition anchor :: "string \<Rightarrow> string \<Rightarrow> node" where
  "anchor h t = Element (link_to h) [Text (latin t)]"


definition block :: "node list \<Rightarrow> node" where
  "block cs =
     Element \<lparr>el_href = None, el_aria_label = None, el_title = None, el_indicator = False\<rparr> cs"

text \<open>Two providers for concrete runs: one always throws, one returns its input tagged.\<close>

definition throwing_provider :: provider where
  "throwing_provider x = Inl (Exn ''The model is not available'')"

definition tagging_provider :: "string \<Rightarrow> provider" where
  "tagging_provider tag x = Inr (tag @ x)"

section \<open>Properties of the risk scorer\<close>

lemma foldl_risk_step:
  "foldl (risk_step text) (s, rs, ps) ks =
     (s + of_nat (length (filter (mentions text) ks)), rs @ filter (mentions text) ks, ps)"
  by (induction ks arbitrary: s rs) (simp_all add: risk_step_def)

lemma foldl_positive_step:
  "foldl (positive_step text) (s, rs, ps) ks =
     (s - of_nat (length (filter (mentions text) ks)) / 2, rs, ps @ filter (mentions text) ks)"
  by (induction ks arbitrary: s ps) (simp_all add: positive_step_def diff_divide_distrib add_divide_distrib)

lemma distinct_riskKeywords: "distinct riskKeywords"
  by (simp add: riskKeywords_def)

lemma distinct_positiveKeywords: "distinct positiveKeywords"
  by (simp add: positiveKeywords_def)

lemma loops_result:
  "foldl (positive_step text) (foldl (risk_step text) (0, [], []) riskKeywords) positiveKeywords =
     (of_nat (length (filter (mentions text) riskKeywords))
        - of_nat (length (filter (mentions text) positiveKeywords)) / 2,
      filter (mentions text) riskKeywords,
      filter (mentions text) positiveKeywords)"
  by (simp add: foldl_risk_step foldl_positive_step)

lemma riskScore_eq:
  "riskScore (analyzeRiskFactors text) =
     of_nat (length (filter (mentions text) riskKeywords))
       - of_nat (length (filter (mentions text) positiveKeywords)) / 2"
  by (simp add: analyzeRiskFactors_def loops_result)

lemma foundRisks_eq:
  "foundRisks (analyzeRiskFactors text) = filter (mentions text) riskKeywords"
  by (simp add: analyzeRiskFactors_def loops_result)

lemma foundPositives_eq:
  "foundPositives (analyzeRiskFactors text) = filter (mentions text) positiveKeywords"
  by (simp add: analyzeRiskFactors_def loops_result)

lemma level_eq:
  "level (analyzeRiskFactors text) =
     (if riskScore (analyzeRiskFactors text) \<ge> 1 then Risky else Safe)"
  by (simp add: analyzeRiskFactors_def loops_result)

lemma description_eq:
  "description (analyzeRiskFactors text) =
     (if riskScore (analyzeRiskFactors text) \<ge> 3
      then ''Multiple risk factors detected. Review carefully before accepting.''
      else if riskScore (analyzeRiskFactors text) \<ge> 1
      then ''Some concerning terms found. Consider the implications.''
      else ''No major red flags detected. Appears to be standard terms.'')"
  by (simp add: analyzeRiskFactors_def loops_result)

lemma card_filter_distinct:
  "distinct ks \<Longrightarrow> card {k \<in> set ks. P k} = length (filter P ks)"
  using distinct_card [of "filter P ks"] by simp

section \<open>Properties of the string operations\<close>



















section \<open>Properties of the page scanner\<close>

lemmas char_eval = toLowerCase_def toLowerChar_def is_upper_def is_space_def is_word_def

lemmas text_eval = latin_def toLowerText_def trimText_def stripPunctText_def

lemmas match_eval = matches_lowered_def text_eval endsWith_def policyKeywords_def char_eval

lemmas tree_eval = anchor_def block_def link_to_def indicator_def textContent_at_def
  addPolicyLinkIndicator_def querySelector_indicator_def



lemma lower_keywords: "map toLowerCase policyKeywords = policyKeywords"
  by (simp add: policyKeywords_def char_eval)

lemma keyword_is_lower: "k \<in> set policyKeywords \<Longrightarrow> toLowerCase k = k"
  using lower_keywords by (metis map_eq_conv map_ident)






lemma filter_isMatch: "filter (isMatch c) policyKeywords = filter (matches_lowered c) policyKeywords"
  by (rule filter_cong) (simp_all add: isMatch_def matches_lowered_def keyword_is_lower)

lemma foldl_keyword_step:
  "foldl (keyword_step path e c) st ks =
     foldl (\<lambda>s k. record_match path e s) st (filter (isMatch c) ks)"
  by (induction ks arbitrary: st) (simp_all add: keyword_step_def)

lemma link_step_eq:
  "link_step st (path, e) =
     foldl (\<lambda>s k. record_match path e s) st
       (filter (matches_lowered (capture (textContent_at (fst st) path) e)) policyKeywords)"
  by (simp add: link_step_def foldl_keyword_step filter_isMatch)

lemma alreadyExists_iff:
  "list_ex (\<lambda>existing. link_href existing = h \<and> link_text existing = t) found
     = (\<lparr>link_text = t, link_href = h\<rparr> \<in> set found)"
proof -
  have "\<And>x::policy_link. (link_href x = h \<and> link_text x = t) = (x = \<lparr>link_text = t, link_href = h\<rparr>)"
    by auto
  then show ?thesis
    by (auto simp: list_ex_iff)
qed

lemma record_match_distinct:
  "distinct (snd st) \<Longrightarrow> distinct (snd (record_match path e st))"
  by (cases st) (simp add: record_match_def Let_def alreadyExists_iff)

lemma link_step_distinct: "distinct (snd st) \<Longrightarrow> distinct (snd (link_step st a))"
proof -
  have "\<And>ks st. distinct (snd st) \<Longrightarrow>
      distinct (snd (foldl (\<lambda>s k. record_match (fst a) (snd a) s) st ks))"
    subgoal for ks st
      by (induction ks arbitrary: st) (simp_all add: record_match_distinct)
    done
  then show "distinct (snd st) \<Longrightarrow> distinct (snd (link_step st a))"
    by (cases a) (simp add: link_step_eq)
qed

lemma scan_links_distinct: "distinct (snd (scan_links doc))"
proof -
  have "\<And>st. distinct (snd st) \<Longrightarrow> distinct (snd (foldl link_step st as))" for as
    by (induction as) (simp_all add: link_step_distinct)
  then show ?thesis
    by (simp add: scan_links_def)
qed

lemma foldl_risky_text_step:
  "foldl (risky_text_step t) (h, ts) ks =
     (h \<or> filter (\<lambda>k. includes_str t (toLowerCase k)) ks \<noteq> [],
      ts @ filter (\<lambda>k. includes_str t (toLowerCase k)) ks)"
  by (induction ks arbitrary: h ts) (simp_all add: risky_text_step_def)

lemma foldl_policy_text_step:
  "foldl (policy_text_step t) h ks = (h \<or> list_ex (\<lambda>k. includes_str t (toLowerCase k)) ks)"
  by (induction ks arbitrary: h) (simp_all add: policy_text_step_def)

lemma mentions_fun: "(\<lambda>k. includes_str (toLowerCase x) (toLowerCase k)) = mentions x"
  by (rule ext) (simp add: mentions_def)

lemma foundRiskyTerms_eq:
  "foundRiskyTerms (detectPolicyContent p) = take 5 (filter (mentions (body_innerText p)) riskyKeywords)"
  by (simp add: detectPolicyContent_def Let_def foldl_risky_text_step mentions_fun)

lemma hasRiskyKeywords_eq:
  "hasRiskyKeywords (detectPolicyContent p) = (filter (mentions (body_innerText p)) riskyKeywords \<noteq> [])"
  by (simp add: detectPolicyContent_def Let_def foldl_risky_text_step mentions_fun)

lemma foundPolicyLinks_eq:
  "foundPolicyLinks (detectPolicyContent p) = take 5 (snd (scan_links (document_nodes p)))"
  by (simp add: detectPolicyContent_def Let_def)


section \<open>Properties of the summary pipeline\<close>

lemma summarizer_stage_fails:
  "absent_or_throws (available w summarizer) \<Longrightarrow> fst (summarizer_stage w text) = []"
proof (cases "available w summarizer")
  case None
  then show ?thesis by (simp add: summarizer_stage_def)
next
  case (Some f)
  assume "absent_or_throws (available w summarizer)"
  with Some have "isl (f text)"
    by (simp add: absent_or_throws_def)
  then obtain e where "f text = Inl e"
    by (cases "f text") simp_all
  with Some show ?thesis by (simp add: summarizer_stage_def)
qed

lemma writer_stage_empty: "fst (writer_stage w []) = []"
  by (simp add: writer_stage_def split: option.splits)

lemma rewriter_stage_empty: "fst (rewriter_stage w []) = []"
  by (simp add: rewriter_stage_def split: option.splits)

lemma writer_stage_skipped: "writer_stage w [] = ([], [])"
  by (simp add: writer_stage_def split: option.splits)

lemma rewriter_stage_skipped: "rewriter_stage w [] = ([], [])"
  by (simp add: rewriter_stage_def split: option.splits)

lemma finalSummary_eq:
  "finalSummary (analyzePolicyText w text) =
     (let summaryText = fst (summarizer_stage w text);
          enhancedSummary = fst (rewriter_stage w (fst (writer_stage w summaryText)))
      in if enhancedSummary \<noteq> [] then enhancedSummary
         else if summaryText \<noteq> [] then summaryText
         else ''Policy contains '' @ string_of_nat (length (splitWs text))
                @ '' words. Analysis based on risk keyword detection.'')"
  by (simp add: analyzePolicyText_def Let_def split: prod.splits)

lemma tried_eq:
  "tried (analyzePolicyText w text) =
     snd (summarizer_stage w text)
       @ snd (writer_stage w (fst (summarizer_stage w text)))
       @ snd (rewriter_stage w (fst (writer_stage w (fst (summarizer_stage w text)))))"
  by (simp add: analyzePolicyText_def Let_def split: prod.splits)

lemma fallback_summary_not_empty: "summary (performFallbackAnalysis text) \<noteq> []"
  by (simp add: performFallbackAnalysis_def Let_def)

lemma string_of_nat_small: "n < 10 \<Longrightarrow> string_of_nat n = [''0123456789'' ! n]"
  by (simp add: string_of_nat.simps)

lemma string_of_nat_large:
  "10 \<le> n \<Longrightarrow> string_of_nat n = string_of_nat (n div 10) @ [''0123456789'' ! (n mod 10)]"
  by (subst string_of_nat.simps) simp

lemmas string_of_nat_eval = string_of_nat_small string_of_nat_large

section \<open>Claims about the summary pipeline and the manual analysis\<close>

text \<open>
  C1. For every availability of the providers and every text, the summary that
  \<open>analyzePolicyText\<close> displays is not empty, and neither is the summary of
  \<open>performFallbackAnalysis\<close>, which its \<open>catch\<close> displays; and when each of the
  three providers is missing or throws, the summary is the sentence \<open>Policy contains N
  words. Analysis based on risk keyword detection.\<close>, where \<open>N\<close> is the number
  of pieces of \<open>text.split(/\s+/)\<close>, printed in decimal.
\<close>

theorem summary_never_empty:
  "finalSummary (analyzePolicyText w text) \<noteq> [] \<and>
   summary (performFallbackAnalysis text) \<noteq> [] \<and>
   (no_provider_works w \<longrightarrow>
      finalSummary (analyzePolicyText w text) =
        ''Policy contains '' @ string_of_nat (length (splitWs text))
          @ '' words. Analysis based on risk keyword detection.'')"
proof (intro conjI impI)
  show "finalSummary (analyzePolicyText w text) \<noteq> []"
    by (simp add: finalSummary_eq Let_def)
  show "summary (performFallbackAnalysis text) \<noteq> []"
    by (rule fallback_summary_not_empty)
next
  assume "no_provider_works w"
  then have "fst (summarizer_stage w text) = []"
    by (simp add: no_provider_works_def summarizer_stage_fails)
  then show "finalSummary (analyzePolicyText w text) =
      ''Policy contains '' @ string_of_nat (length (splitWs text))
        @ '' words. Analysis based on risk keyword detection.''"
    by (simp add: finalSummary_eq Let_def writer_stage_empty rewriter_stage_empty)
qed

text \<open>
  A run with a summarizer and a rewriter that throw and no writer, on a text of eight
  words.
\<close>

theorem summary_never_empty_witness:
  "no_provider_works
     (Some \<lparr>summarizer = Some throwing_provider, writer = None,
            rewriter = Some throwing_provider\<rparr>) \<and>
   finalSummary
     (analyzePolicyText
        (Some \<lparr>summarizer = Some throwing_provider, writer = None,
               rewriter = Some throwing_provider\<rparr>)
        ''We may sell your data to third parties'') =
     ''Policy contains 8 words. Analysis based on risk keyword detection.''"
proof -
  let ?w = "Some \<lparr>summarizer = Some throwing_provider, writer = None,
                   rewriter = Some throwing_provider\<rparr>"
  let ?t = "''We may sell your data to third parties''"
  have h: "no_provider_works ?w"
    by (simp add: no_provider_works_def absent_or_throws_def available_def throwing_provider_def)
  have n: "string_of_nat (length (splitWs ?t)) = ''8''"
    by (simp add: is_space_def string_of_nat_eval)
  have "finalSummary (analyzePolicyText ?w ?t) =
        ''Policy contains '' @ string_of_nat (length (splitWs ?t))
          @ '' words. Analysis based on risk keyword detection.''"
    by (rule summary_never_empty [of ?w ?t, THEN conjunct2, THEN conjunct2, rule_format, OF h])
  with n h show ?thesis by simp
qed

text \<open>
  C7. When the trimmed input is shorter than 100 characters (the empty input included),
  the click handler stops at one of its two validation messages: the result is a
  \<open>ValidationError\<close> and \<open>analyzePolicyText\<close> is not run, so there is neither a
  summary nor a risk analysis.
\<close>

theorem short_text_rejected:
  assumes "length (trim v) < 100"
  shows "analyzeButton_click w v =
           Inl (ValidationError
             (if trim v = [] then ''Please paste some policy text to analyze''
              else ''Please provide more text for a meaningful analysis (at least 100 characters)''))"
  using assms by (simp add: analyzeButton_click_def Let_def)

text \<open>An input whose trimmed text has 50 characters is rejected.\<close>

lemma trim50: "trim ''  We may share your data with our partners at times.  '' = ''We may share your data with our partners at times.''"
  by (simp add: trim_def is_space_def)

theorem short_text_rejected_witness:
  "length (trim ''  We may share your data with our partners at times.  '') = 50 \<and>
   analyzeButton_click None ''  We may share your data with our partners at times.  '' =
     Inl (ValidationError
       ''Please provide more text for a meaningful analysis (at least 100 characters)'')"
proof -
  have l: "length (trim ''  We may share your data with our partners at times.  '') = 50"
    by (simp add: trim50)
  then have "length (trim ''  We may share your data with our partners at times.  '') < 100"
    by simp
  from short_text_rejected [OF this, of None] l show ?thesis
    by (simp add: trim50)
qed

text \<open>
  The first half of C8 fails: with no summarizer and a writer that works, the writer
  is never tried, on the raw text or on anything else, and the summary is the
  word-count sentence.
\<close>

theorem writer_skipped_counterexample:
  "tried (analyzePolicyText
            (Some \<lparr>summarizer = None, writer = Some (tagging_provider ''Reframed: ''),
                   rewriter = None\<rparr>)
            ''raw policy text'') = [] \<and>
   finalSummary (analyzePolicyText
            (Some \<lparr>summarizer = None, writer = Some (tagging_provider ''Reframed: ''),
                   rewriter = None\<rparr>)
            ''raw policy text'') =
     ''Policy contains 3 words. Analysis based on risk keyword detection.''"
  by (simp add: tried_eq finalSummary_eq summarizer_stage_def writer_stage_def rewriter_stage_def
      available_def is_space_def string_of_nat_eval)

text \<open>
  C8, amended. When the summarizer is missing, the writer block is skipped: no provider
  is tried at all and the summary is the word-count sentence. When the writer is
  there, the summary text it is given is not empty and its use throws, the writer
  block yields that summary text unchanged, after one attempt on the prompt built
  from it.
\<close>

theorem writer_stage_guard:
  "(available w summarizer = None \<longrightarrow>
      tried (analyzePolicyText w text) = [] \<and>
      finalSummary (analyzePolicyText w text) =
        ''Policy contains '' @ string_of_nat (length (splitWs text))
          @ '' words. Analysis based on risk keyword detection.'') \<and>
   (available w writer = Some p \<and> summaryText \<noteq> [] \<and> isl (p (writer_prompt summaryText)) \<longrightarrow>
      writer_stage w summaryText = (summaryText, [(Writer, writer_prompt summaryText)]))"
proof (intro conjI impI)
  assume a: "available w summarizer = None"
  then have s: "summarizer_stage w text = ([], [])"
    by (simp add: summarizer_stage_def)
  show "tried (analyzePolicyText w text) = []"
    by (simp add: tried_eq s writer_stage_skipped rewriter_stage_skipped)
  show "finalSummary (analyzePolicyText w text) =
        ''Policy contains '' @ string_of_nat (length (splitWs text))
          @ '' words. Analysis based on risk keyword detection.''"
    by (simp add: finalSummary_eq s writer_stage_skipped rewriter_stage_skipped)
next
  assume "available w writer = Some p \<and> summaryText \<noteq> [] \<and> isl (p (writer_prompt summaryText))"
  then show "writer_stage w summaryText = (summaryText, [(Writer, writer_prompt summaryText)])"
    by (auto simp: writer_stage_def split: sum.splits)
qed

text \<open>A run of both halves with a writer that throws and no summarizer.\<close>

theorem writer_stage_guard_witness:
  "available (Some \<lparr>summarizer = None, writer = Some throwing_provider, rewriter = None\<rparr>)
     summarizer = None \<and>
   tried (analyzePolicyText
     (Some \<lparr>summarizer = None, writer = Some throwing_provider, rewriter = None\<rparr>)
     ''raw policy text'') = [] \<and>
   available (Some \<lparr>summarizer = None, writer = Some throwing_provider, rewriter = None\<rparr>)
     writer = Some throwing_provider \<and>
   isl (throwing_provider (writer_prompt ''Key points: data is shared'')) \<and>
   fst (writer_stage
     (Some \<lparr>summarizer = None, writer = Some throwing_provider, rewriter = None\<rparr>)
     ''Key points: data is shared'') = ''Key points: data is shared''"
proof -
  let ?w = "Some \<lparr>summarizer = None, writer = Some throwing_provider, rewriter = None\<rparr>"
  have a: "available ?w summarizer = None"
    by (simp add: available_def)
  have b: "available ?w writer = Some throwing_provider"
    by (simp add: available_def)
  have c: "isl (throwing_provider (writer_prompt ''Key points: data is shared''))"
    by (simp add: throwing_provider_def)
  have d: "''Key points: data is shared'' \<noteq> []"
    by simp
  note g = writer_stage_guard [of ?w "''raw policy text''" throwing_provider
      "''Key points: data is shared''"]
  have e: "tried (analyzePolicyText ?w ''raw policy text'') = []"
    using g [THEN conjunct1, rule_format, OF a] by (rule conjunct1)
  have bdc: "available ?w writer = Some throwing_provider \<and>
      ''Key points: data is shared'' \<noteq> [] \<and>
      isl (throwing_provider (writer_prompt ''Key points: data is shared''))"
    using b d c by (intro conjI)
  have "writer_stage ?w ''Key points: data is shared'' =
          (''Key points: data is shared'', [(Writer, writer_prompt ''Key points: data is shared'')])"
    by (rule g [THEN conjunct2, rule_format, OF bdc])
  then have f: "fst (writer_stage ?w ''Key points: data is shared'') = ''Key points: data is shared''"
    by (simp only: fst_conv)
  from a e b c f show ?thesis by (intro conjI)
qed

section \<open>Claims about the risk scorer\<close>

lemma scenario_risks:
  "filter (mentions ''This Privacy Policy explains that we may sell your data to third parties without notice.'') riskKeywords
     = [''sell your data'', ''third parties'', ''without notice'']"
  by (simp add: mentions_def char_eval riskKeywords_def)

lemma scenario_positives:
  "filter (mentions ''This Privacy Policy explains that we may sell your data to third parties without notice.'') positiveKeywords = []"
  by (simp add: mentions_def char_eval positiveKeywords_def)

lemma not_sell_risks:
  "filter (mentions ''We will not sell your data.'') riskKeywords = [''sell your data'']"
  by (simp add: mentions_def char_eval riskKeywords_def)

lemma not_sell_positives:
  "filter (mentions ''We will not sell your data.'') positiveKeywords = [''not sell'']"
  by (simp add: mentions_def char_eval positiveKeywords_def)

lemma secure_risks:
  "filter (mentions ''Secure, encrypted storage.'') riskKeywords = []"
  by (simp add: mentions_def char_eval riskKeywords_def)

lemma secure_positives:
  "filter (mentions ''Secure, encrypted storage.'') positiveKeywords = [''encrypted'', ''secure'']"
  by (simp add: mentions_def char_eval positiveKeywords_def)

text \<open>The fallback summary on a text with one risk phrase and one positive phrase.\<close>

lemma fallback_summary_example:
  "summary (performFallbackAnalysis ''We will not sell your data.'') =
     ''Analysis of 6 words completed using keyword detection. Found 1 potential risk factor(s). Also identified 1 positive privacy aspect(s). Low risk score (0.5) - appears to be standard terms.''"
  by (simp add: performFallbackAnalysis_def Let_def riskScore_eq foundRisks_eq foundPositives_eq
      not_sell_risks not_sell_positives string_of_score_def string_of_nat_eval is_space_def)

text \<open>
  The descriptions of C2 as the claim quotes them are not the strings of the script:
  on the specification's own scenario the score is 3 and the description is not
  \<open>multiple risk factors, review carefully\<close>.
\<close>

theorem description_counterexample:
  "riskScore (analyzeRiskFactors
     ''This Privacy Policy explains that we may sell your data to third parties without notice.'') = 3 \<and>
   description (analyzeRiskFactors
     ''This Privacy Policy explains that we may sell your data to third parties without notice.'')
     \<noteq> ''multiple risk factors, review carefully''"
  by (simp add: description_eq riskScore_eq scenario_risks scenario_positives)

text \<open>
  C2, amended. For every text the level is \<open>risky\<close> exactly when the score is at
  least 1 (and \<open>safe\<close> exactly when it is below 1), and the description is
  \<open>Multiple risk factors detected. Review carefully before accepting.\<close> when the
  score is at least 3, \<open>Some concerning terms found. Consider the implications.\<close>
  when it is at least 1 and below 3, and
  \<open>No major red flags detected. Appears to be standard terms.\<close> when it is below 1.
\<close>

theorem level_and_description:
  "(level (analyzeRiskFactors text) = Risky) = (riskScore (analyzeRiskFactors text) \<ge> 1) \<and>
   (level (analyzeRiskFactors text) = Safe) = (riskScore (analyzeRiskFactors text) < 1) \<and>
   description (analyzeRiskFactors text) =
     (if riskScore (analyzeRiskFactors text) \<ge> 3
      then ''Multiple risk factors detected. Review carefully before accepting.''
      else if riskScore (analyzeRiskFactors text) \<ge> 1
      then ''Some concerning terms found. Consider the implications.''
      else ''No major red flags detected. Appears to be standard terms.'')"
  by (simp add: level_eq description_eq)

text \<open>
  C3. For every text the score is the number of distinct risk phrases that occur in
  it, compared in lower case, minus one half for each distinct positive phrase that
  occurs. Nothing clamps it: one risk phrase and one positive phrase give exactly one
  half, and two positive phrases alone give minus one.
\<close>

theorem riskScore_counts:
  "riskScore (analyzeRiskFactors text) =
     of_nat (card {k \<in> set riskKeywords. mentions text k})
       - of_nat (card {k \<in> set positiveKeywords. mentions text k}) / 2 \<and>
   riskScore (analyzeRiskFactors ''We will not sell your data.'') = 1 / 2 \<and>
   riskScore (analyzeRiskFactors ''Secure, encrypted storage.'') = - 1"
  by (simp add: riskScore_eq card_filter_distinct distinct_riskKeywords distinct_positiveKeywords
      not_sell_risks not_sell_positives secure_risks secure_positives)

section \<open>Claims about the link test\<close>















section \<open>Claims about the scan of the links\<close>

lemma legal_terms_capture:
  "capture (latin '' Terms. '') (link_to ''https://shop.example/legal'') =
     \<lparr>linkText = latin ''terms.'', href = ''https://shop.example/legal'', ariaLabel = [], title = []\<rparr>"
  by (simp add: capture_def link_href_of_def or_empty_def link_to_def text_eval char_eval)

lemma legal_terms_keywords:
  "filter (matches_lowered
      \<lparr>linkText = latin ''terms.'', href = ''https://shop.example/legal'', ariaLabel = [], title = []\<rparr>)
     policyKeywords = [''terms'', ''legal'']"
  by (simp add: match_eval)

text \<open>
  C5 does not hold of the script. A page with the single link \<open>Terms.\<close> to
  \<open>https://shop.example/legal\<close> gives two entries: the keyword \<open>terms\<close> records
  the link and puts the indicator inside it, after which the keyword \<open>legal\<close> reads
  a text that ends with the warning sign, finds no entry with that text and records
  the link again. The list is longer than the list of links, and the text of its
  second entry is not the trimmed visible text.
\<close>

theorem one_link_two_entries:
  "snd (scan_links [block [anchor ''https://shop.example/legal'' '' Terms. '']]) =
     [\<lparr>link_text = latin ''Terms.'', link_href = ''https://shop.example/legal''\<rparr>,
      \<lparr>link_text = latin ''Terms. '' @ [WarningSign, VariationSelector16],
       link_href = ''https://shop.example/legal''\<rparr>]"
proof -
  let ?doc = "[block [anchor ''https://shop.example/legal'' '' Terms. '']]"
  let ?e = "link_to ''https://shop.example/legal''"
  have a: "anchors_from [] 0 ?doc = [([0, 0], ?e)]"
    by (simp add: tree_eval)
  have t: "textContent_at ?doc [0, 0] = latin '' Terms. ''"
    by (simp add: tree_eval)
  have "link_step (?doc, []) ([0, 0], ?e) =
        foldl (\<lambda>s k. record_match [0, 0] ?e s) (?doc, []) [''terms'', ''legal'']"
    by (simp only: link_step_eq fst_conv t legal_terms_capture legal_terms_keywords)
  then have "snd (link_step (?doc, []) ([0, 0], ?e)) =
     [\<lparr>link_text = latin ''Terms.'', link_href = ''https://shop.example/legal''\<rparr>,
      \<lparr>link_text = latin ''Terms. '' @ [WarningSign, VariationSelector16],
       link_href = ''https://shop.example/legal''\<rparr>]"
    by (simp add: record_match_def link_href_of_def tree_eval text_eval is_space_def)
  then show ?thesis
    by (simp only: scan_links_def a foldl.simps)
qed

section \<open>Claims about the page report\<close>

text \<open>
  What holds of every report: both lists have at most five entries, and they are the
  first five (or fewer) of the list of entries that the scan has pushed and of the
  list of the risky keywords found.
\<close>

lemma report_truncated:
  "length (foundPolicyLinks (detectPolicyContent p)) \<le> 5 \<and>
   length (foundRiskyTerms (detectPolicyContent p)) \<le> 5 \<and>
   foundPolicyLinks (detectPolicyContent p) = take 5 (snd (scan_links (document_nodes p))) \<and>
   foundRiskyTerms (detectPolicyContent p) =
     take 5 (filter (mentions (body_innerText p)) riskyKeywords)"
  by (simp add: foundRiskyTerms_eq foundPolicyLinks_eq)














text \<open>
  C10. In every report, \<open>hasRiskyKeywords\<close> is true exactly when
  \<open>foundRiskyTerms\<close> is not empty.
\<close>

theorem risky_flag_iff_terms:
  "hasRiskyKeywords (detectPolicyContent p) = (foundRiskyTerms (detectPolicyContent p) \<noteq> [])"
  by (simp add: foundRiskyTerms_eq hasRiskyKeywords_eq)

section \<open>Claims relating the two lists of risk phrases\<close>





end
